theory Spec2Isabelle
  imports Complex_Main "HOL-Library.Multiset"
begin

section \<open>JavaScript values as js-yaml loads them\<close>

text \<open>
  \<^verbatim>\<open>post-tweet.js\<close> is dynamically typed: the agenda is whatever \<^verbatim>\<open>yaml.load\<close> returns,
  and every property access, truthiness test and \<^verbatim>\<open>===\<close> of the script works on such a
  value. Numbers are the finite values (a superset of the doubles, on which equality and
  truthiness agree), the two infinities and NaN. A mapping is an association list in file
  order; js-yaml rejects a duplicated key, so the first binding is the only one.
  A YAML timestamp loads as a \<^verbatim>\<open>Date\<close> object, kept here as an opaque object.
\<close>

datatype jsnum = NaN | PosInf | NegInf | Fin rat

datatype jsval =
    JUndefined
  | JNull
  | JBool bool
  | JNum jsnum
  | JStr string
  | JDate int
  | JArr "jsval list"
  | JObj "(string \<times> jsval) list"

datatype error = IOError | YAMLException | TypeError | ValidationError | PublishError

text \<open>Truthiness, as \<^verbatim>\<open>!x\<close> and \<^verbatim>\<open>if (x)\<close> test it.\<close>

fun truthy :: "jsval \<Rightarrow> bool" where
  "truthy JUndefined = False"
| "truthy JNull = False"
| "truthy (JBool b) = b"
| "truthy (JNum n) = (n \<noteq> NaN \<and> n \<noteq> Fin 0)"
| "truthy (JStr s) = (s \<noteq> [])"
| "truthy (JDate t) = True"
| "truthy (JArr xs) = True"
| "truthy (JObj kvs) = True"

text \<open>
  Property access \<^verbatim>\<open>v.k\<close>. On \<^verbatim>\<open>undefined\<close> and \<^verbatim>\<open>null\<close> it throws a TypeError; on a mapping
  it is the bound value or \<^verbatim>\<open>undefined\<close>; arrays and strings have \<^verbatim>\<open>length\<close>; the script reads
  no other inherited property as a value (\<^verbatim>\<open>find\<close> and \<^verbatim>\<open>filter\<close> are calls, below).
\<close>

fun get_prop :: "jsval \<Rightarrow> string \<Rightarrow> error + jsval" where
  "get_prop JUndefined k = Inl TypeError"
| "get_prop JNull k = Inl TypeError"
| "get_prop (JObj kvs) k = Inr (case map_of kvs k of Some v \<Rightarrow> v | None \<Rightarrow> JUndefined)"
| "get_prop (JArr xs) k =
     Inr (if k = ''length'' then JNum (Fin (of_nat (length xs))) else JUndefined)"
| "get_prop (JStr s) k =
     Inr (if k = ''length'' then JNum (Fin (of_nat (length s))) else JUndefined)"
| "get_prop (JBool b) k = Inr JUndefined"
| "get_prop (JNum n) k = Inr JUndefined"
| "get_prop (JDate t) k = Inr JUndefined"

text \<open>
  Strict equality \<^verbatim>\<open>a === b\<close>. Primitives compare by value and NaN equals nothing. Objects
  (arrays, mappings, dates) compare by identity; in this script one operand is always a
  value of a fresh \<^verbatim>\<open>yaml.load\<close> and the other a string or a value of an earlier load, so
  two objects are never the same one.
\<close>

fun strict_eq :: "jsval \<Rightarrow> jsval \<Rightarrow> bool" where
  "strict_eq JUndefined JUndefined = True"
| "strict_eq JNull JNull = True"
| "strict_eq (JBool a) (JBool b) = (a = b)"
| "strict_eq (JNum a) (JNum b) = (a = b \<and> a \<noteq> NaN)"
| "strict_eq (JStr a) (JStr b) = (a = b)"
| "strict_eq _ _ = False"

fun isArray :: "jsval \<Rightarrow> bool" where
  "isArray (JArr xs) = True"
| "isArray _ = False"

text \<open>
  String conversion, as a template literal applies it to an interpolated value. It throws
  a TypeError exactly when it meets a mapping with a key \<^verbatim>\<open>toString\<close> of its own: the value
  under it is never callable, and \<^verbatim>\<open>valueOf\<close> then returns the mapping itself or is not
  callable either. A mapping without that key prints through \<^verbatim>\<open>Object.prototype.toString\<close>, a
  date through its own method, and an array joins the conversions of its elements
  (\<^verbatim>\<open>null\<close> as the empty string). Only the exception matters here: the string goes to the log.
\<close>

fun converts :: "jsval \<Rightarrow> bool" where
  "converts (JObj kvs) = (map_of kvs ''toString'' = None)"
| "converts (JArr xs) = (\<forall>x\<in>set xs. converts x)"
| "converts _ = True"

text \<open>
  \<^verbatim>\<open>Array.prototype.find\<close> and \<^verbatim>\<open>filter\<close> with a callback that may throw: the elements are
  visited from the left and the first exception ends the call. \<^verbatim>\<open>find\<close> stops at the first
  element the callback accepts and is \<^verbatim>\<open>undefined\<close> when there is none.
\<close>

fun findE :: "(jsval \<Rightarrow> error + bool) \<Rightarrow> jsval list \<Rightarrow> error + jsval" where
  "findE p [] = Inr JUndefined"
| "findE p (x # xs) =
     (case p x of Inl e \<Rightarrow> Inl e | Inr b \<Rightarrow> if b then Inr x else findE p xs)"

fun filterE :: "(jsval \<Rightarrow> error + bool) \<Rightarrow> jsval list \<Rightarrow> error + jsval list" where
  "filterE p [] = Inr []"
| "filterE p (x # xs) =
     (case p x of
        Inl e \<Rightarrow> Inl e
      | Inr b \<Rightarrow> (case filterE p xs of
                    Inl e \<Rightarrow> Inl e
                  | Inr ys \<Rightarrow> Inr (if b then x # ys else ys)))"

text \<open>
  \<^verbatim>\<open>v.find(p)\<close> and \<^verbatim>\<open>v.filter(p)\<close> on an arbitrary value: only an array has the method;
  on anything else the call throws a TypeError (property of \<^verbatim>\<open>undefined\<close>, or not a function).
\<close>

fun array_find :: "(jsval \<Rightarrow> error + bool) \<Rightarrow> jsval \<Rightarrow> error + jsval" where
  "array_find p (JArr xs) = findE p xs"
| "array_find p _ = Inl TypeError"

fun array_filter :: "(jsval \<Rightarrow> error + bool) \<Rightarrow> jsval \<Rightarrow> error + jsval list" where
  "array_filter p (JArr xs) = filterE p xs"
| "array_filter p _ = Inl TypeError"

section \<open>The world the script runs in\<close>

text \<open>
  The agenda file is identified with the document \<^verbatim>\<open>yaml.load\<close> makes of its text
  (\<^verbatim>\<open>undefined\<close> for an empty file), or is text that js-yaml rejects, or exists and cannot
  be read (a directory, a file without read permission); \<^verbatim>\<open>yaml.dump\<close> followed by
  \<^verbatim>\<open>yaml.load\<close> gives the dumped value back.

  \<^verbatim>\<open>fs.writeFileSync\<close> opens \<^verbatim>\<open>agenda.yaml\<close> with flag \<^verbatim>\<open>w\<close>, which empties it, and then writes.
  \<open>on_write\<close> says what the file system does with that: it stores the content; it refuses
  the open, and the file stays as it is; or it fails after the open, and the file is left
  emptied or cut short, holding \<open>left\<close>. \<open>tweeted\<close> lists the argument of every call of
  \<^verbatim>\<open>rwClient.v2.tweetThread\<close> and \<open>written\<close> the content of every completed write, oldest
  first.
\<close>

datatype content = Unreadable | Malformed | Doc jsval

datatype write_result = Stored | Refused | CutShort content

record world =
  agenda_file :: "content option"
  on_write :: write_result
  tweeted :: "jsval list"
  written :: "content list"

definition existsSync :: "world \<Rightarrow> bool" where
  "existsSync w = (agenda_file w \<noteq> None)"

definition readFileSync :: "world \<Rightarrow> error + content" where
  "readFileSync w =
     (case agenda_file w of
        None \<Rightarrow> Inl IOError
      | Some Unreadable \<Rightarrow> Inl IOError
      | Some c \<Rightarrow> Inr c)"

text \<open>\<^verbatim>\<open>yaml.load\<close> is only called on text that was read.\<close>

definition yaml_load :: "content \<Rightarrow> error + jsval" where
  "yaml_load c = (case c of Doc v \<Rightarrow> Inr v | Malformed \<Rightarrow> Inl YAMLException
                  | Unreadable \<Rightarrow> Inl YAMLException)"

definition yaml_dump :: "jsval \<Rightarrow> content" where
  "yaml_dump v = Doc v"

definition writeFileSync :: "content \<Rightarrow> world \<Rightarrow> (error + unit) \<times> world" where
  "writeFileSync c w =
     (case on_write w of
        Stored \<Rightarrow> (Inr (), w\<lparr>agenda_file := Some c, written := written w @ [c]\<rparr>)
      | Refused \<Rightarrow> (Inl IOError, w)
      | CutShort left \<Rightarrow> (Inl IOError, w\<lparr>agenda_file := Some left\<rparr>))"

text \<open>
  The Publisher is external: \<open>accepts thread\<close> says whether the promise of
  \<^verbatim>\<open>tweetThread(thread)\<close> resolves. The call is recorded either way.
\<close>

definition tweetThread :: "(jsval \<Rightarrow> bool) \<Rightarrow> jsval \<Rightarrow> world \<Rightarrow> (error + unit) \<times> world" where
  "tweetThread accepts thread w =
     (if accepts thread then Inr () else Inl PublishError,
      w\<lparr>tweeted := tweeted w @ [thread]\<rparr>)"

section \<open>The script\<close>

text \<open>
  A log line that interpolates a property, \<^verbatim>\<open>console.log(`... ${v.k} ...`)\<close>: the property is
  read and converted to a string.
\<close>

definition log_template :: "jsval \<Rightarrow> string \<Rightarrow> error + unit" where
  "log_template v k =
     (case get_prop v k of
        Inl e \<Rightarrow> Inl e
      | Inr x \<Rightarrow> if converts x then Inr () else Inl TypeError)"

text \<open>The callback of \<^verbatim>\<open>data.jobs.find\<close>: \<^verbatim>\<open>job => job.date === hoy\<close>.\<close>

definition is_today :: "string \<Rightarrow> jsval \<Rightarrow> error + bool" where
  "is_today hoy job =
     (case get_prop job ''date'' of
        Inl e \<Rightarrow> Inl e
      | Inr d \<Rightarrow> Inr (strict_eq d (JStr hoy)))"

text \<open>
  \<^verbatim>\<open>getJobParaHoy\<close>, with today's key \<open>hoy\<close> (the script computes it from the clock) as a
  parameter. It returns \<^verbatim>\<open>null\<close>, the result of \<^verbatim>\<open>find\<close>, or throws; the world comes back as it
  was, since the function only reads.
\<close>

definition getJobParaHoy :: "string \<Rightarrow> world \<Rightarrow> (error + jsval) \<times> world" where
  "getJobParaHoy hoy w =
     (if \<not> existsSync w then (Inr JNull, w)
      else (case readFileSync w of
              Inl e \<Rightarrow> (Inl e, w)
            | Inr fileContents \<Rightarrow>
           (case yaml_load fileContents of
              Inl e \<Rightarrow> (Inl e, w)
            | Inr data \<Rightarrow>
           (if \<not> truthy data then (Inr JNull, w)
            else (case get_prop data ''jobs'' of
                    Inl e \<Rightarrow> (Inl e, w)
                  | Inr jobs \<Rightarrow>
                 (if \<not> truthy jobs then (Inr JNull, w)
                  else (case get_prop jobs ''length'' of
                          Inl e \<Rightarrow> (Inl e, w)
                        | Inr len \<Rightarrow>
                       (if strict_eq len (JNum (Fin 0)) then (Inr JNull, w)
                        else (array_find (is_today hoy) jobs, w)))))))))"

text \<open>
  The callback of \<^verbatim>\<open>data.jobs.filter\<close>:
  \<^verbatim>\<open>job => !(job.date === jobPublicado.date && job.concept === jobPublicado.concept)\<close>.
  \<^verbatim>\<open>&&\<close> reads the concepts only when the dates are equal.
\<close>

definition keep_job :: "jsval \<Rightarrow> jsval \<Rightarrow> error + bool" where
  "keep_job jobPublicado job =
     (case get_prop job ''date'' of
        Inl e \<Rightarrow> Inl e
      | Inr d \<Rightarrow>
     (case get_prop jobPublicado ''date'' of
        Inl e \<Rightarrow> Inl e
      | Inr pd \<Rightarrow>
     (if strict_eq d pd
      then (case get_prop job ''concept'' of
              Inl e \<Rightarrow> Inl e
            | Inr c \<Rightarrow>
           (case get_prop jobPublicado ''concept'' of
              Inl e \<Rightarrow> Inl e
            | Inr pc \<Rightarrow> Inr (\<not> strict_eq c pc)))
      else Inr True)))"

text \<open>
  \<^verbatim>\<open>removeJobFromAgenda\<close>: the log line prints \<^verbatim>\<open>jobPublicado.concept\<close>, the file is read and
  loaded again, \<^verbatim>\<open>data.jobs\<close> is filtered, and a new mapping with the single key \<^verbatim>\<open>jobs\<close> is
  dumped over the file.
\<close>

definition removeJobFromAgenda :: "jsval \<Rightarrow> world \<Rightarrow> (error + unit) \<times> world" where
  "removeJobFromAgenda jobPublicado w =
     (case log_template jobPublicado ''concept'' of
        Inl e \<Rightarrow> (Inl e, w)
      | Inr logged \<Rightarrow>
     (case readFileSync w of
        Inl e \<Rightarrow> (Inl e, w)
      | Inr fileContents \<Rightarrow>
     (case yaml_load fileContents of
        Inl e \<Rightarrow> (Inl e, w)
      | Inr data \<Rightarrow>
     (case get_prop data ''jobs'' of
        Inl e \<Rightarrow> (Inl e, w)
      | Inr jobs \<Rightarrow>
     (case array_filter (keep_job jobPublicado) jobs of
        Inl e \<Rightarrow> (Inl e, w)
      | Inr jobsPendientes \<Rightarrow>
          writeFileSync (yaml_dump (JObj [(''jobs'', JArr jobsPendientes)])) w)))))"

text \<open>
  The body of the \<^verbatim>\<open>try\<close> block of \<^verbatim>\<open>publicarHilo\<close>: \<open>Inl e\<close> is the exception that reaches
  the \<^verbatim>\<open>catch\<close>. The two log lines that print \<^verbatim>\<open>jobHoy.date\<close> and \<^verbatim>\<open>jobHoy.concept\<close> come before
  the validation of the thread. \<^verbatim>\<open>||\<close> reads \<^verbatim>\<open>jobHoy.thread.length\<close> only of an array, where it
  is a number; the lines that print that number and, through \<^verbatim>\<open>console.log\<close>'s own formatting,
  the first tweet do not throw. The run is sequential and nothing else touches the file
  meanwhile: the cleanup starts in the world the Publisher call left.
\<close>

definition publicarHilo_try :: "string \<Rightarrow> (jsval \<Rightarrow> bool) \<Rightarrow> world \<Rightarrow> (error + unit) \<times> world" where
  "publicarHilo_try hoy accepts w =
     (case getJobParaHoy hoy w of
        (Inl e, w1) \<Rightarrow> (Inl e, w1)
      | (Inr jobHoy, w1) \<Rightarrow>
     (if truthy jobHoy
      then (case log_template jobHoy ''date'' of
              Inl e \<Rightarrow> (Inl e, w1)
            | Inr logged_date \<Rightarrow>
           (case log_template jobHoy ''concept'' of
              Inl e \<Rightarrow> (Inl e, w1)
            | Inr logged_concept \<Rightarrow>
           (case get_prop jobHoy ''thread'' of
              Inl e \<Rightarrow> (Inl e, w1)
            | Inr thread \<Rightarrow>
           (if \<not> isArray thread \<or> get_prop thread ''length'' = Inr (JNum (Fin 0))
            then (Inl ValidationError, w1)
            else (case tweetThread accepts thread w1 of
                    (Inl e, w2) \<Rightarrow> (Inl e, w2)
                  | (Inr u, w2) \<Rightarrow> removeJobFromAgenda jobHoy w2)))))
      else (Inr (), w1)))"

text \<open>
  \<^verbatim>\<open>publicarHilo\<close> with its \<^verbatim>\<open>catch\<close>: any exception is logged and the process exits with
  status 1; otherwise the script ends and the process exits with status 0.
\<close>

definition publicarHilo :: "string \<Rightarrow> (jsval \<Rightarrow> bool) \<Rightarrow> world \<Rightarrow> nat \<times> world" where
  "publicarHilo hoy accepts w =
     (case publicarHilo_try hoy accepts w of
        (Inl e, w') \<Rightarrow> (1, w')
      | (Inr u, w') \<Rightarrow> (0, w'))"

section \<open>Sample agendas\<close>

text \<open>
  The two jobs of the scenario \<^verbatim>\<open>[{date: 2024-01-01, concept: A, thread: [x]},
  {date: 2024-01-02, concept: B, thread: [y, z]}]\<close>; a second job with the date and concept
  of the latter; a job of that date with another concept; one with an empty thread; one
  whose concept is a list; and two whose concept is a mapping with a key \<^verbatim>\<open>toString\<close>.
\<close>

abbreviation job_A :: jsval where
  "job_A \<equiv> JObj [(''date'', JStr ''2024-01-01''), (''concept'', JStr ''A''),
                 (''thread'', JArr [JStr ''x''])]"

abbreviation job_B :: jsval where
  "job_B \<equiv> JObj [(''date'', JStr ''2024-01-02''), (''concept'', JStr ''B''),
                 (''thread'', JArr [JStr ''y'', JStr ''z''])]"

abbreviation job_B_again :: jsval where
  "job_B_again \<equiv> JObj [(''date'', JStr ''2024-01-02''), (''concept'', JStr ''B''),
                       (''thread'', JArr [JStr ''w''])]"

abbreviation job_C :: jsval where
  "job_C \<equiv> JObj [(''date'', JStr ''2024-01-02''), (''concept'', JStr ''C''),
                 (''thread'', JArr [JStr ''v''])]"

abbreviation job_empty_thread :: jsval where
  "job_empty_thread \<equiv> JObj [(''date'', JStr ''2024-01-02''), (''concept'', JStr ''B''),
                            (''thread'', JArr [])]"

abbreviation job_list_concept :: jsval where
  "job_list_concept \<equiv> JObj [(''date'', JStr ''2024-01-02''), (''concept'', JArr [JStr ''a'']),
                            (''thread'', JArr [JStr ''u''])]"

abbreviation job_odd_concept :: jsval where
  "job_odd_concept \<equiv> JObj [(''date'', JStr ''2024-01-02''),
                           (''concept'', JObj [(''toString'', JNum (Fin 1))]),
                           (''thread'', JArr [JStr ''u''])]"

abbreviation job_odd_concept_empty_thread :: jsval where
  "job_odd_concept_empty_thread \<equiv>
     JObj [(''date'', JStr ''2024-01-02''), (''concept'', JObj [(''toString'', JNum (Fin 1))]),
           (''thread'', JArr [])]"

abbreviation thread_B :: jsval where
  "thread_B \<equiv> JArr [JStr ''y'', JStr ''z'']"

abbreviation agenda :: "jsval list \<Rightarrow> jsval" where
  "agenda js \<equiv> JObj [(''jobs'', JArr js)]"

abbreviation disk :: "jsval \<Rightarrow> world" where
  "disk doc \<equiv> \<lparr>agenda_file = Some (Doc doc), on_write = Stored, tweeted = [], written = []\<rparr>"

abbreviation read_only :: "jsval \<Rightarrow> world" where
  "read_only doc \<equiv> \<lparr>agenda_file = Some (Doc doc), on_write = Refused, tweeted = [], written = []\<rparr>"

abbreviation no_file :: world where
  "no_file \<equiv> \<lparr>agenda_file = None, on_write = Stored, tweeted = [], written = []\<rparr>"

lemmas script_defs =
  publicarHilo_def publicarHilo_try_def getJobParaHoy_def removeJobFromAgenda_def
  existsSync_def readFileSync_def yaml_load_def yaml_dump_def writeFileSync_def
  tweetThread_def is_today_def keep_job_def log_template_def

section \<open>Values and callbacks\<close>

lemma strict_eq_imp_eq: "strict_eq x y \<Longrightarrow> x = y"
  by (cases x; cases y) auto

lemma strict_eq_JStr: "strict_eq x (JStr s) = (x = JStr s)"
  by (cases x) auto

lemma strict_eq_self: "strict_eq c c \<Longrightarrow> strict_eq x c = (x = c)"
  by (cases x; cases c) auto

lemma get_prop_total: "v \<noteq> JNull \<Longrightarrow> v \<noteq> JUndefined \<Longrightarrow> \<exists>x. get_prop v k = Inr x"
  by (cases v) auto

lemma truthy_get_prop: "truthy v \<Longrightarrow> \<exists>x. get_prop v k = Inr x"
  by (cases v) auto

lemma isArray_empty:
  "isArray t \<Longrightarrow> (get_prop t ''length'' = Inr (JNum (Fin 0))) = (t = JArr [])"
  by (cases t) auto

lemma filterE_Inr:
  "filterE p xs = Inr ys \<Longrightarrow> ys = filter (\<lambda>x. p x = Inr True) xs"
  by (induction xs arbitrary: ys) (auto split: sum.splits if_splits)

lemma filterE_Inr_total:
  "filterE p xs = Inr ys \<Longrightarrow> \<forall>x\<in>set xs. \<exists>b. p x = Inr b"
  by (induction xs arbitrary: ys) (auto split: sum.splits)

lemma filterE_total:
  "\<forall>x\<in>set xs. \<exists>b. p x = Inr b \<Longrightarrow> filterE p xs = Inr (filter (\<lambda>x. p x = Inr True) xs)"
  by (induction xs) (auto split: sum.splits)

lemma findE_total:
  "\<forall>x\<in>set xs. \<exists>b. p x = Inr b \<Longrightarrow>
   findE p xs = Inr (case filter (\<lambda>x. p x = Inr True) xs of [] \<Rightarrow> JUndefined | a # _ \<Rightarrow> a)"
  by (induction xs) (auto split: sum.splits)

lemma findE_none: "\<forall>x\<in>set xs. p x = Inr False \<Longrightarrow> findE p xs = Inr JUndefined"
  by (induction xs) auto

lemma findE_found:
  "findE p xs = Inr v \<Longrightarrow> v \<noteq> JUndefined \<Longrightarrow> v \<in> set xs \<and> p v = Inr True"
  by (induction xs) (auto split: sum.splits if_splits)

lemma is_today_value:
  assumes "job \<noteq> JNull" and "job \<noteq> JUndefined"
  shows "is_today hoy job = Inr (get_prop job ''date'' = Inr (JStr hoy))"
proof -
  from assms obtain d where "get_prop job ''date'' = Inr d"
    using get_prop_total by blast
  then show ?thesis by (simp add: is_today_def strict_eq_JStr)
qed

text \<open>
  The filter callback on an entry that is not \<^verbatim>\<open>null\<close>: it drops the entry exactly when its
  date and its concept are strictly equal to those of the published job.
\<close>

lemma keep_job_value:
  assumes "get_prop jobPublicado ''date'' = Inr pd" and "get_prop jobPublicado ''concept'' = Inr pc"
    and "get_prop job ''date'' = Inr d" and "get_prop job ''concept'' = Inr c"
  shows "keep_job jobPublicado job = Inr (\<not> (strict_eq d pd \<and> strict_eq c pc))"
  using assms by (simp add: keep_job_def)

lemma keep_job_absent_pair:
  assumes "get_prop jobPublicado ''date'' = Inr pd" and "get_prop jobPublicado ''concept'' = Inr pc"
    and "job \<noteq> JNull" and "job \<noteq> JUndefined"
    and "\<not> (get_prop job ''date'' = Inr pd \<and> get_prop job ''concept'' = Inr pc)"
  shows "keep_job jobPublicado job = Inr True"
proof -
  from assms(3,4) obtain d c where dc: "get_prop job ''date'' = Inr d" "get_prop job ''concept'' = Inr c"
    using get_prop_total by blast
  with assms(5) have "\<not> (strict_eq d pd \<and> strict_eq c pc)"
    using strict_eq_imp_eq by blast
  with keep_job_value [OF assms(1,2) dc] show ?thesis by simp
qed

lemma keep_job_primitive_pair:
  assumes "get_prop jobPublicado ''date'' = Inr (JStr hoy)"
    and "get_prop jobPublicado ''concept'' = Inr pc" and "strict_eq pc pc"
    and "keep_job jobPublicado job = Inr b"
  shows "b = (\<not> (get_prop job ''date'' = Inr (JStr hoy) \<and> get_prop job ''concept'' = Inr pc))"
proof -
  from assms(4) obtain d where d: "get_prop job ''date'' = Inr d"
    by (auto simp: keep_job_def split: sum.splits)
  then have "job \<noteq> JNull" "job \<noteq> JUndefined" by auto
  then obtain c where c: "get_prop job ''concept'' = Inr c"
    using get_prop_total by blast
  from keep_job_value [OF assms(1,2) d c] assms(4)
  have "b = (\<not> (strict_eq d (JStr hoy) \<and> strict_eq c pc))" by simp
  then show ?thesis
    using d c by (simp add: strict_eq_JStr strict_eq_self [OF assms(3)])
qed

section \<open>The lookup\<close>

lemma getJobParaHoy_reads_only: "snd (getJobParaHoy hoy w) = w"
  by (simp add: getJobParaHoy_def split: sum.splits)

lemma getJobParaHoy_nothing:
  assumes "agenda_file w = None \<or>
           (agenda_file w = Some (Doc data) \<and>
             (\<not> truthy data \<or>
              (get_prop data ''jobs'' = Inr jobs \<and>
                (\<not> truthy jobs \<or>
                 (jobs = JArr xs \<and>
                  (\<forall>job\<in>set xs. job \<noteq> JNull \<and> job \<noteq> JUndefined \<and>
                                 get_prop job ''date'' \<noteq> Inr (JStr hoy)))))))"
  shows "getJobParaHoy hoy w = (Inr JNull, w) \<or> getJobParaHoy hoy w = (Inr JUndefined, w)"
proof -
  have "findE (is_today hoy) xs = Inr JUndefined"
    if "\<forall>job\<in>set xs. job \<noteq> JNull \<and> job \<noteq> JUndefined \<and> get_prop job ''date'' \<noteq> Inr (JStr hoy)"
    using that by (intro findE_none) (simp add: is_today_value)
  with assms show ?thesis
    by (auto simp: getJobParaHoy_def existsSync_def readFileSync_def yaml_load_def
             split: sum.splits)
qed

lemma getJobParaHoy_stored:
  assumes "agenda_file w = Some (Doc data)" and "get_prop data ''jobs'' = Inr (JArr xs)"
  shows "getJobParaHoy hoy w = (if xs = [] then Inr JNull else findE (is_today hoy) xs, w)"
proof -
  have "truthy data" using assms(2) by (cases data) (auto split: if_splits)
  with assms show ?thesis
    by (simp add: getJobParaHoy_def existsSync_def readFileSync_def yaml_load_def)
qed

lemma getJobParaHoy_found:
  assumes "fst (getJobParaHoy hoy w) = Inr jobHoy" and "truthy jobHoy"
  shows "get_prop jobHoy ''date'' = Inr (JStr hoy)"
proof -
  have ne: "jobHoy \<noteq> JUndefined" "jobHoy \<noteq> JNull" using assms(2) by auto
  from assms(1) ne obtain jobs where "array_find (is_today hoy) jobs = Inr jobHoy"
    by (auto simp: getJobParaHoy_def split: if_splits sum.splits)
  then obtain xs where "findE (is_today hoy) xs = Inr jobHoy" by (cases jobs) auto
  with ne have "is_today hoy jobHoy = Inr True" using findE_found by blast
  then show ?thesis using ne by (simp add: is_today_value)
qed

lemma getJobParaHoy_member:
  assumes "fst (getJobParaHoy hoy w) = Inr jobHoy" and "truthy jobHoy"
    and "agenda_file w = Some (Doc data)" and "get_prop data ''jobs'' = Inr (JArr xs)"
  shows "jobHoy \<in> set xs"
proof -
  have ne: "jobHoy \<noteq> JUndefined" "jobHoy \<noteq> JNull" using assms(2) by auto
  from assms(1) ne getJobParaHoy_stored [OF assms(3,4), of hoy]
  have "findE (is_today hoy) xs = Inr jobHoy" by (auto split: if_splits)
  with ne show ?thesis using findE_found by blast
qed

text \<open>
  C3, as the code has it. Where the agenda file does not exist, is empty (its document is
  falsy), has no jobs sequence (no \<^verbatim>\<open>jobs\<close> key, a falsy value under it, or an empty
  sequence), or holds a jobs sequence in which no entry is \<^verbatim>\<open>null\<close> and no entry is dated
  today, \<^verbatim>\<open>getJobParaHoy\<close> does not throw and returns \<^verbatim>\<open>null\<close> or \<^verbatim>\<open>undefined\<close>; and in every
  state it leaves the world, hence the file, as it found it.
\<close>

theorem getJobParaHoy_absent_without_writing:
  "snd (getJobParaHoy hoy w) = w \<and>
   (agenda_file w = None \<or>
      (agenda_file w = Some (Doc data) \<and>
        (\<not> truthy data \<or>
         (get_prop data ''jobs'' = Inr jobs \<and>
           (\<not> truthy jobs \<or>
            (jobs = JArr xs \<and>
             (\<forall>job\<in>set xs. job \<noteq> JNull \<and> job \<noteq> JUndefined \<and>
                            get_prop job ''date'' \<noteq> Inr (JStr hoy)))))))
    \<longrightarrow> fst (getJobParaHoy hoy w) = Inr JNull \<or> fst (getJobParaHoy hoy w) = Inr JUndefined)"
  using getJobParaHoy_nothing [of w "data" jobs xs hoy] getJobParaHoy_reads_only [of hoy w]
  by auto

theorem getJobParaHoy_absent_without_writing_witness:
  "snd (getJobParaHoy ''2024-01-03'' (disk (agenda [job_A, job_B]))) = disk (agenda [job_A, job_B]) \<and>
   (fst (getJobParaHoy ''2024-01-03'' (disk (agenda [job_A, job_B]))) = Inr JNull \<or>
    fst (getJobParaHoy ''2024-01-03'' (disk (agenda [job_A, job_B]))) = Inr JUndefined) \<and>
   snd (getJobParaHoy ''2024-01-03'' no_file) = no_file \<and>
   (fst (getJobParaHoy ''2024-01-03'' no_file) = Inr JNull \<or>
    fst (getJobParaHoy ''2024-01-03'' no_file) = Inr JUndefined)"
  using getJobParaHoy_absent_without_writing
    [of "''2024-01-03''" "disk (agenda [job_A, job_B])" "agenda [job_A, job_B]"
        "JArr [job_A, job_B]" "[job_A, job_B]"]
    getJobParaHoy_absent_without_writing [of "''2024-01-03''" no_file]
  by simp

text \<open>
  A \<^verbatim>\<open>jobs\<close> value that is a string, not a sequence, and a jobs sequence with a \<^verbatim>\<open>null\<close>
  entry and no job dated today: in both the lookup throws a TypeError.
\<close>

theorem getJobParaHoy_throws_counterexample:
  "fst (getJobParaHoy ''2024-01-03'' (disk (JObj [(''jobs'', JStr ''abc'')]))) = Inl TypeError \<and>
   fst (getJobParaHoy ''2024-01-03'' (disk (agenda [job_A, JNull]))) = Inl TypeError"
  by (simp add: script_defs)

text \<open>
  C7, as the code has it. When no stored entry is \<^verbatim>\<open>null\<close> and all the stored entries dated
  today are one and the same job (in particular when at most one entry is dated today), two
  agendas whose jobs sequences are permutations of each other give the same lookup result.
\<close>

theorem lookup_order_independent_for_single_match:
  assumes "agenda_file w1 = Some (Doc d1)" and "get_prop d1 ''jobs'' = Inr (JArr xs)"
    and "agenda_file w2 = Some (Doc d2)" and "get_prop d2 ''jobs'' = Inr (JArr ys)"
    and "mset xs = mset ys"
    and "\<forall>job\<in>set xs. job \<noteq> JNull \<and> job \<noteq> JUndefined"
    and "\<forall>a\<in>set xs. \<forall>b\<in>set xs.
           get_prop a ''date'' = Inr (JStr hoy) \<and> get_prop b ''date'' = Inr (JStr hoy) \<longrightarrow> a = b"
  shows "fst (getJobParaHoy hoy w1) = fst (getJobParaHoy hoy w2)"
proof -
  let ?p = "\<lambda>x. is_today hoy x = Inr True"
  have set_eq: "set xs = set ys" using assms(5) by (rule mset_eq_setD)
  have today: "?p x \<longleftrightarrow> get_prop x ''date'' = Inr (JStr hoy)" if "x \<in> set xs" for x
    using that assms(6) by (simp add: is_today_value)
  have total: "\<forall>x\<in>set xs. \<exists>b. is_today hoy x = Inr b"
    using assms(6) by (simp add: is_today_value)
  have fx: "findE (is_today hoy) xs = Inr (case filter ?p xs of [] \<Rightarrow> JUndefined | a # _ \<Rightarrow> a)"
    using total by (rule findE_total)
  have fy: "findE (is_today hoy) ys = Inr (case filter ?p ys of [] \<Rightarrow> JUndefined | a # _ \<Rightarrow> a)"
    using total set_eq by (intro findE_total) simp
  have same: "(case filter ?p xs of [] \<Rightarrow> JUndefined | a # _ \<Rightarrow> a) =
              (case filter ?p ys of [] \<Rightarrow> JUndefined | a # _ \<Rightarrow> a)"
  proof (cases "filter ?p xs")
    case Nil
    then have "\<forall>x\<in>set ys. \<not> ?p x" using set_eq by (auto simp: filter_empty_conv)
    then have "filter ?p ys = []" by (simp add: filter_empty_conv)
    with Nil show ?thesis by simp
  next
    case (Cons a as)
    then have "a \<in> set (filter ?p xs)" by simp
    then have a: "a \<in> set xs" "?p a" by simp_all
    then have "filter ?p ys \<noteq> []" using set_eq by (auto simp: filter_empty_conv)
    then obtain b bs where b: "filter ?p ys = b # bs" by (cases "filter ?p ys") auto
    then have "b \<in> set (filter ?p ys)" by simp
    then have "b \<in> set xs" "?p b" using set_eq by simp_all
    with a today assms(7) have "a = b" by blast
    with Cons b show ?thesis by simp
  qed
  have "xs = [] \<longleftrightarrow> ys = []" using set_eq by auto
  with fx fy same show ?thesis
    by (simp add: getJobParaHoy_stored [OF assms(1,2)] getJobParaHoy_stored [OF assms(3,4)])
qed

theorem lookup_order_independent_for_single_match_witness:
  "fst (getJobParaHoy ''2024-01-02'' (disk (agenda [job_A, job_B]))) =
   fst (getJobParaHoy ''2024-01-02'' (disk (agenda [job_B, job_A])))"
proof -
  have perm: "mset [job_A, job_B] = mset [job_B, job_A]"
    by simp
  have no_null: "\<forall>job\<in>set [job_A, job_B]. job \<noteq> JNull \<and> job \<noteq> JUndefined"
    by simp
  have single: "\<forall>a\<in>set [job_A, job_B]. \<forall>b\<in>set [job_A, job_B].
                  get_prop a ''date'' = Inr (JStr ''2024-01-02'') \<and>
                  get_prop b ''date'' = Inr (JStr ''2024-01-02'') \<longrightarrow> a = b"
    by simp
  have f1: "agenda_file (disk (agenda [job_A, job_B])) = Some (Doc (agenda [job_A, job_B]))"
    by simp
  have j1: "get_prop (agenda [job_A, job_B]) ''jobs'' = Inr (JArr [job_A, job_B])"
    by simp
  have f2: "agenda_file (disk (agenda [job_B, job_A])) = Some (Doc (agenda [job_B, job_A]))"
    by simp
  have j2: "get_prop (agenda [job_B, job_A]) ''jobs'' = Inr (JArr [job_B, job_A])"
    by simp
  show ?thesis
    by (rule lookup_order_independent_for_single_match [OF f1 j1 f2 j2 perm no_null single])
qed

text \<open>
  Two jobs dated today with different concepts: each order of the same two entries makes
  the lookup return another job. One job dated today and a \<^verbatim>\<open>null\<close> entry: one order finds
  the job, the other throws.
\<close>

theorem lookup_depends_on_order_counterexample:
  "mset [job_B, job_C] = mset [job_C, job_B] \<and>
   fst (getJobParaHoy ''2024-01-02'' (disk (agenda [job_B, job_C]))) = Inr job_B \<and>
   fst (getJobParaHoy ''2024-01-02'' (disk (agenda [job_C, job_B]))) = Inr job_C \<and>
   job_B \<noteq> job_C \<and>
   mset [job_B, JNull] = mset [JNull, job_B] \<and>
   fst (getJobParaHoy ''2024-01-02'' (disk (agenda [job_B, JNull]))) = Inr job_B \<and>
   fst (getJobParaHoy ''2024-01-02'' (disk (agenda [JNull, job_B]))) = Inl TypeError"
  by (simp add: script_defs)

section \<open>The cleanup\<close>

lemma removeJobFromAgenda_tweeted:
  "tweeted (snd (removeJobFromAgenda job w)) = tweeted w"
  by (auto simp: removeJobFromAgenda_def writeFileSync_def split: sum.splits write_result.splits)

lemma removeJobFromAgenda_ok:
  assumes "removeJobFromAgenda job w = (Inr u, w')"
  shows "\<exists>data xs. agenda_file w = Some (Doc data) \<and> get_prop data ''jobs'' = Inr (JArr xs) \<and>
           on_write w = Stored \<and> (\<forall>j\<in>set xs. \<exists>b. keep_job job j = Inr b) \<and>
           w' = w\<lparr>agenda_file := Some (Doc (agenda (filter (\<lambda>j. keep_job job j = Inr True) xs))),
                  written := written w @ [Doc (agenda (filter (\<lambda>j. keep_job job j = Inr True) xs))]\<rparr>"
proof -
  from assms obtain fc data jobs ys where
    1: "readFileSync w = Inr fc" and 2: "yaml_load fc = Inr data"
    and 3: "get_prop data ''jobs'' = Inr jobs"
    and 4: "array_filter (keep_job job) jobs = Inr ys"
    and 5: "writeFileSync (yaml_dump (agenda ys)) w = (Inr u, w')"
    by (auto simp: removeJobFromAgenda_def split: sum.splits)
  from 4 obtain xs where xs: "jobs = JArr xs" by (cases jobs) auto
  with 4 have ys: "ys = filter (\<lambda>j. keep_job job j = Inr True) xs"
    and total: "\<forall>j\<in>set xs. \<exists>b. keep_job job j = Inr b"
    by (simp_all add: filterE_Inr filterE_Inr_total)
  from 1 2 have "agenda_file w = Some (Doc data)"
    by (auto simp: readFileSync_def yaml_load_def split: option.splits content.splits)
  moreover from 5 have "on_write w = Stored" and
    "w' = w\<lparr>agenda_file := Some (Doc (agenda ys)), written := written w @ [Doc (agenda ys)]\<rparr>"
    by (auto simp: writeFileSync_def yaml_dump_def split: write_result.splits)
  ultimately show ?thesis using 3 xs ys total by blast
qed

text \<open>
  C10. When the agenda file holds a mapping with a top-level key \<open>k\<close> other than \<^verbatim>\<open>jobs\<close>
  and \<^verbatim>\<open>removeJobFromAgenda\<close> returns normally, the file afterwards holds a mapping whose only
  key is \<^verbatim>\<open>jobs\<close>: \<open>k\<close> is gone from it.
\<close>

theorem removeJobFromAgenda_drops_other_keys:
  assumes "agenda_file w = Some (Doc (JObj kvs))" and "k \<in> fst ` set kvs" and "k \<noteq> ''jobs''"
    and "removeJobFromAgenda job w = (Inr u, w')"
  shows "\<exists>ys. agenda_file w' = Some (Doc (JObj [(''jobs'', JArr ys)])) \<and>
              get_prop (JObj [(''jobs'', JArr ys)]) k = Inr JUndefined"
  using removeJobFromAgenda_ok [OF assms(4)] assms(3) by auto

theorem removeJobFromAgenda_drops_other_keys_witness:
  "\<exists>ys. agenda_file (snd (removeJobFromAgenda job_B
            (disk (JObj [(''owner'', JStr ''lab''), (''jobs'', JArr [job_A, job_B])])))) =
          Some (Doc (JObj [(''jobs'', JArr ys)])) \<and>
        get_prop (JObj [(''jobs'', JArr ys)]) ''owner'' = Inr JUndefined"
proof -
  let ?w = "disk (JObj [(''owner'', JStr ''lab''), (''jobs'', JArr [job_A, job_B])])"
  have ok: "removeJobFromAgenda job_B ?w = (Inr (), snd (removeJobFromAgenda job_B ?w))"
    by (simp add: script_defs)
  from removeJobFromAgenda_drops_other_keys
    [OF _ _ _ ok, of "[(''owner'', JStr ''lab''), (''jobs'', JArr [job_A, job_B])]" "''owner''"]
  show ?thesis by simp
qed

text \<open>
  C9, as the code has it. Let the agenda file exist and hold a jobs sequence in which no
  entry is \<^verbatim>\<open>null\<close>, let the file system store what is written, and let the job have a date
  \<open>d\<close> and a concept \<open>c\<close> that converts to a string, with no stored entry having both the
  date \<open>d\<close> and the concept \<open>c\<close>. Then \<^verbatim>\<open>removeJobFromAgenda\<close> returns normally and stores the
  same jobs sequence again, as the only key of the new mapping.
\<close>

theorem removeJobFromAgenda_absent_pair_keeps_jobs:
  assumes "agenda_file w = Some (Doc data)" and "get_prop data ''jobs'' = Inr (JArr xs)"
    and "\<forall>j\<in>set xs. j \<noteq> JNull \<and> j \<noteq> JUndefined"
    and "on_write w = Stored"
    and "get_prop job ''date'' = Inr d" and "get_prop job ''concept'' = Inr c"
    and "converts c"
    and "\<forall>j\<in>set xs. \<not> (get_prop j ''date'' = Inr d \<and> get_prop j ''concept'' = Inr c)"
  shows "removeJobFromAgenda job w =
           (Inr (), w\<lparr>agenda_file := Some (Doc (JObj [(''jobs'', JArr xs)])),
                      written := written w @ [Doc (JObj [(''jobs'', JArr xs)])]\<rparr>)"
proof -
  have keep: "\<forall>j\<in>set xs. keep_job job j = Inr True"
    using assms(3,8) keep_job_absent_pair [OF assms(5,6)] by blast
  then have "filterE (keep_job job) xs = Inr (filter (\<lambda>j. keep_job job j = Inr True) xs)"
    by (intro filterE_total) auto
  moreover have "filter (\<lambda>j. keep_job job j = Inr True) xs = xs"
    using keep by (simp add: filter_id_conv)
  ultimately show ?thesis
    using assms(1,2,4,6,7)
    by (simp add: removeJobFromAgenda_def log_template_def readFileSync_def yaml_load_def
        yaml_dump_def writeFileSync_def)
qed

theorem removeJobFromAgenda_absent_pair_keeps_jobs_witness:
  "removeJobFromAgenda job_B (disk (agenda [job_A, job_C])) =
     (Inr (), \<lparr>agenda_file = Some (Doc (agenda [job_A, job_C])), on_write = Stored, tweeted = [],
               written = [Doc (agenda [job_A, job_C])]\<rparr>)"
proof -
  have f: "agenda_file (disk (agenda [job_A, job_C])) = Some (Doc (agenda [job_A, job_C]))"
    by simp
  have j: "get_prop (agenda [job_A, job_C]) ''jobs'' = Inr (JArr [job_A, job_C])"
    by simp
  have no_null: "\<forall>j\<in>set [job_A, job_C]. j \<noteq> JNull \<and> j \<noteq> JUndefined"
    by simp
  have st: "on_write (disk (agenda [job_A, job_C])) = Stored"
    by simp
  have d: "get_prop job_B ''date'' = Inr (JStr ''2024-01-02'')"
    by simp
  have c: "get_prop job_B ''concept'' = Inr (JStr ''B'')"
    by simp
  have cv: "converts (JStr ''B'')"
    by simp
  have absent: "\<forall>j\<in>set [job_A, job_C]. \<not> (get_prop j ''date'' = Inr (JStr ''2024-01-02'') \<and>
                                           get_prop j ''concept'' = Inr (JStr ''B''))"
    by simp
  from removeJobFromAgenda_absent_pair_keeps_jobs [OF f j no_null st d c cv absent]
  show ?thesis by simp
qed

text \<open>
  Four calls for a job whose date and concept no stored entry has, each of which throws:
  with no agenda file; with a file system that refuses the write; with a \<^verbatim>\<open>null\<close> entry in the
  jobs sequence; and for a job whose concept does not convert to a string.
\<close>

theorem removeJobFromAgenda_raises_counterexample:
  "fst (removeJobFromAgenda job_B no_file) = Inl IOError \<and>
   fst (removeJobFromAgenda job_B (read_only (agenda [job_A]))) = Inl IOError \<and>
   fst (removeJobFromAgenda job_B (disk (agenda [job_A, JNull]))) = Inl TypeError \<and>
   fst (removeJobFromAgenda job_odd_concept (disk (agenda [job_A]))) = Inl TypeError"
  by (simp add: script_defs)

section \<open>The run\<close>

text \<open>
  The six ways through the \<^verbatim>\<open>try\<close> block: the lookup throws; there is no job; the log
  line cannot print the concept; the thread is rejected; the Publisher fails; the Publisher
  succeeds and the cleanup decides.
\<close>

lemma publicarHilo_try_cases:
  obtains
    (search_error) e where
      "getJobParaHoy hoy w = (Inl e, w)"
      "publicarHilo_try hoy accepts w = (Inl e, w)"
  | (no_job) v where
      "getJobParaHoy hoy w = (Inr v, w)" "\<not> truthy v"
      "publicarHilo_try hoy accepts w = (Inr (), w)"
  | (log_error) jobHoy c where
      "getJobParaHoy hoy w = (Inr jobHoy, w)" "truthy jobHoy"
      "get_prop jobHoy ''concept'' = Inr c" "\<not> converts c"
      "publicarHilo_try hoy accepts w = (Inl TypeError, w)"
  | (invalid) jobHoy c thread where
      "getJobParaHoy hoy w = (Inr jobHoy, w)" "truthy jobHoy"
      "get_prop jobHoy ''concept'' = Inr c" "converts c"
      "get_prop jobHoy ''thread'' = Inr thread"
      "\<not> isArray thread \<or> thread = JArr []"
      "publicarHilo_try hoy accepts w = (Inl ValidationError, w)"
  | (publish_error) jobHoy c thread where
      "getJobParaHoy hoy w = (Inr jobHoy, w)" "truthy jobHoy"
      "get_prop jobHoy ''concept'' = Inr c" "converts c"
      "get_prop jobHoy ''thread'' = Inr thread"
      "isArray thread" "thread \<noteq> JArr []"
      "\<not> accepts thread"
      "publicarHilo_try hoy accepts w = (Inl PublishError, w\<lparr>tweeted := tweeted w @ [thread]\<rparr>)"
  | (cleanup) jobHoy c thread where
      "getJobParaHoy hoy w = (Inr jobHoy, w)" "truthy jobHoy"
      "get_prop jobHoy ''concept'' = Inr c" "converts c"
      "get_prop jobHoy ''thread'' = Inr thread"
      "isArray thread" "thread \<noteq> JArr []"
      "accepts thread"
      "publicarHilo_try hoy accepts w =
         removeJobFromAgenda jobHoy (w\<lparr>tweeted := tweeted w @ [thread]\<rparr>)"
proof -
  obtain r where r: "getJobParaHoy hoy w = (r, w)"
    using getJobParaHoy_reads_only [of hoy w] by (cases "getJobParaHoy hoy w") simp
  show thesis
  proof (cases r)
    case (Inl e)
    with r show thesis by (intro search_error [of e]) (simp_all add: publicarHilo_try_def)
  next
    case (Inr jobHoy)
    show thesis
    proof (cases "truthy jobHoy")
      case False
      with r Inr show thesis by (intro no_job [of jobHoy]) (simp_all add: publicarHilo_try_def)
    next
      case True
      have "get_prop jobHoy ''date'' = Inr (JStr hoy)"
        using r Inr True by (intro getJobParaHoy_found [of hoy w]) simp_all
      then have date: "log_template jobHoy ''date'' = Inr ()"
        by (simp add: log_template_def)
      obtain c where c: "get_prop jobHoy ''concept'' = Inr c"
        using True truthy_get_prop by blast
      obtain thread where t: "get_prop jobHoy ''thread'' = Inr thread"
        using True truthy_get_prop by blast
      show thesis
      proof (cases "converts c")
        case False
        with r Inr True date c show thesis
          by (intro log_error [of jobHoy c])
             (simp_all add: publicarHilo_try_def log_template_def)
      next
        case cv: True
        then have concept: "log_template jobHoy ''concept'' = Inr ()"
          using c by (simp add: log_template_def)
        show thesis
        proof (cases "\<not> isArray thread \<or> thread = JArr []")
          case bad: True
          then have "\<not> isArray thread \<or> get_prop thread ''length'' = Inr (JNum (Fin 0))"
            by auto
          with r Inr True date concept t c cv bad show thesis
            by (intro invalid [of jobHoy c thread]) (simp_all add: publicarHilo_try_def)
        next
          case ok: False
          then have ok': "isArray thread" "thread \<noteq> JArr []"
            "get_prop thread ''length'' \<noteq> Inr (JNum (Fin 0))"
            by (simp_all add: isArray_empty)
          show thesis
          proof (cases "accepts thread")
            case False
            with r Inr True date concept t c cv ok' show thesis
              by (intro publish_error [of jobHoy c thread])
                 (simp_all add: publicarHilo_try_def tweetThread_def)
          next
            case acc: True
            with r Inr True date concept t c cv ok' show thesis
              by (intro cleanup [of jobHoy c thread])
                 (simp_all add: publicarHilo_try_def tweetThread_def)
          qed
        qed
      qed
    qed
  qed
qed

text \<open>A run that found a job and ended with status 0 published it and rewrote the agenda.\<close>

lemma run_completed:
  assumes "fst (getJobParaHoy hoy w) = Inr jobHoy" and "truthy jobHoy"
    and "fst (publicarHilo hoy accepts w) = 0"
  shows "\<exists>thread data xs.
           get_prop jobHoy ''thread'' = Inr thread \<and> accepts thread \<and>
           agenda_file w = Some (Doc data) \<and> get_prop data ''jobs'' = Inr (JArr xs) \<and>
           (\<forall>j\<in>set xs. \<exists>b. keep_job jobHoy j = Inr b) \<and>
           snd (publicarHilo hoy accepts w) =
             w\<lparr>agenda_file := Some (Doc (agenda (filter (\<lambda>j. keep_job jobHoy j = Inr True) xs))),
               tweeted := tweeted w @ [thread],
               written := written w @ [Doc (agenda (filter (\<lambda>j. keep_job jobHoy j = Inr True) xs))]\<rparr>"
proof (cases rule: publicarHilo_try_cases [where hoy = hoy and w = w and accepts = accepts])
  case (search_error e)
  with assms show ?thesis by simp
next
  case (no_job v)
  with assms show ?thesis by simp
next
  case (log_error j c)
  with assms show ?thesis by (simp add: publicarHilo_def)
next
  case (invalid j c t)
  with assms show ?thesis by (simp add: publicarHilo_def)
next
  case (publish_error j c t)
  with assms show ?thesis by (simp add: publicarHilo_def)
next
  case (cleanup j c t)
  from cleanup(1) assms(1) have j: "j = jobHoy" by simp
  obtain r w' where r: "removeJobFromAgenda jobHoy (w\<lparr>tweeted := tweeted w @ [t]\<rparr>) = (r, w')"
    by (cases "removeJobFromAgenda jobHoy (w\<lparr>tweeted := tweeted w @ [t]\<rparr>)") simp
  with cleanup(9) j assms(3) obtain u where u: "r = Inr u"
    by (cases r) (simp_all add: publicarHilo_def)
  from removeJobFromAgenda_ok [OF r [unfolded u]] obtain data xs where
    d: "agenda_file w = Some (Doc data)" "get_prop data ''jobs'' = Inr (JArr xs)"
    and total: "\<forall>j\<in>set xs. \<exists>b. keep_job jobHoy j = Inr b"
    and w': "w' = w\<lparr>tweeted := tweeted w @ [t],
               agenda_file := Some (Doc (agenda (filter (\<lambda>j. keep_job jobHoy j = Inr True) xs))),
               written := written w @ [Doc (agenda (filter (\<lambda>j. keep_job jobHoy j = Inr True) xs))]\<rparr>"
    by auto
  have "snd (publicarHilo hoy accepts w) = w'"
    using cleanup(9) j r u by (simp add: publicarHilo_def)
  with w' d total cleanup(5,8) j show ?thesis by auto
qed

text \<open>
  With a published job whose concept is strictly equal to itself (a primitive other than
  NaN), the entries the completed cleanup keeps are those that do not have both the date
  and the concept of the published job.
\<close>

lemma run_completed_pair:
  assumes "fst (getJobParaHoy hoy w) = Inr jobHoy" and "truthy jobHoy"
    and "get_prop jobHoy ''concept'' = Inr c" and "strict_eq c c"
    and "fst (publicarHilo hoy accepts w) = 0"
    and "agenda_file w = Some (Doc data)" and "get_prop data ''jobs'' = Inr (JArr xs)"
  shows "\<exists>thread.
           get_prop jobHoy ''thread'' = Inr thread \<and> accepts thread \<and>
           snd (publicarHilo hoy accepts w) =
             w\<lparr>agenda_file := Some (Doc (agenda (filter (\<lambda>j. \<not> (get_prop j ''date'' = Inr (JStr hoy) \<and>
                                                              get_prop j ''concept'' = Inr c)) xs))),
               tweeted := tweeted w @ [thread],
               written := written w @ [Doc (agenda (filter (\<lambda>j. \<not> (get_prop j ''date'' = Inr (JStr hoy) \<and>
                                                              get_prop j ''concept'' = Inr c)) xs))]\<rparr>"
proof -
  from run_completed [OF assms(1,2,5)] assms(6,7) obtain thread where
    t: "get_prop jobHoy ''thread'' = Inr thread" "accepts thread"
    and total: "\<forall>j\<in>set xs. \<exists>b. keep_job jobHoy j = Inr b"
    and w': "snd (publicarHilo hoy accepts w) =
             w\<lparr>agenda_file := Some (Doc (agenda (filter (\<lambda>j. keep_job jobHoy j = Inr True) xs))),
               tweeted := tweeted w @ [thread],
               written := written w @ [Doc (agenda (filter (\<lambda>j. keep_job jobHoy j = Inr True) xs))]\<rparr>"
    by auto
  have date: "get_prop jobHoy ''date'' = Inr (JStr hoy)"
    using assms(1,2) by (rule getJobParaHoy_found)
  have "(keep_job jobHoy j = Inr True) =
        (\<not> (get_prop j ''date'' = Inr (JStr hoy) \<and> get_prop j ''concept'' = Inr c))"
    if "j \<in> set xs" for j
  proof -
    from that total obtain b where b: "keep_job jobHoy j = Inr b" by blast
    from keep_job_primitive_pair [OF date assms(3,4) b] b show ?thesis by simp
  qed
  then have "filter (\<lambda>j. keep_job jobHoy j = Inr True) xs =
             filter (\<lambda>j. \<not> (get_prop j ''date'' = Inr (JStr hoy) \<and> get_prop j ''concept'' = Inr c)) xs"
    by (intro filter_cong) simp_all
  with t w' show ?thesis by simp
qed

text \<open>
  C8, as the code has it. When the agenda file is missing, is empty, has no jobs sequence
  (no \<^verbatim>\<open>jobs\<close> key, a falsy value under it, or an empty sequence), or holds a jobs sequence in
  which no entry is \<^verbatim>\<open>null\<close> and no entry is dated today, the process exits with status 0
  and the world is as before the run: \<open>tweeted\<close> has no new call (the Publisher was not
  invoked), \<open>written\<close> has no new write and the file is unchanged.
\<close>

theorem nothing_today_exits_zero_untouched:
  assumes "agenda_file w = None \<or>
           (agenda_file w = Some (Doc data) \<and>
             (\<not> truthy data \<or>
              (get_prop data ''jobs'' = Inr jobs \<and>
                (\<not> truthy jobs \<or>
                 (jobs = JArr xs \<and>
                  (\<forall>job\<in>set xs. job \<noteq> JNull \<and> job \<noteq> JUndefined \<and>
                                 get_prop job ''date'' \<noteq> Inr (JStr hoy)))))))"
  shows "publicarHilo hoy accepts w = (0, w)"
  using getJobParaHoy_nothing [OF assms]
  by (auto simp: publicarHilo_def publicarHilo_try_def)

theorem nothing_today_exits_zero_untouched_witness:
  "publicarHilo ''2024-01-03'' (\<lambda>t. True) (disk (agenda [job_A, job_B])) =
     (0, disk (agenda [job_A, job_B])) \<and>
   publicarHilo ''2024-01-03'' (\<lambda>t. True) no_file = (0, no_file)"
  using nothing_today_exits_zero_untouched
    [of "disk (agenda [job_A, job_B])" "agenda [job_A, job_B]" "JArr [job_A, job_B]"
        "[job_A, job_B]" "''2024-01-03''" "\<lambda>t. True"]
    nothing_today_exits_zero_untouched [of no_file _ _ _ "''2024-01-03''" "\<lambda>t. True"]
  by simp

text \<open>
  Two stores with no job for today, a \<^verbatim>\<open>jobs\<close> value that is a string and a jobs sequence
  with a \<^verbatim>\<open>null\<close> entry: the lookup throws inside the \<^verbatim>\<open>try\<close> block and the exit status is 1.
\<close>

theorem nothing_today_exits_one_counterexample:
  "fst (publicarHilo ''2024-01-03'' (\<lambda>t. True) (disk (JObj [(''jobs'', JStr ''abc'')]))) = 1 \<and>
   fst (publicarHilo ''2024-01-03'' (\<lambda>t. True) (disk (agenda [job_A, JNull]))) = 1"
  by (simp add: script_defs)

text \<open>
  C6, as the code has it. When the job found for today has a thread that is not an array, or
  an empty array, the run fails before the Publisher is invoked: the \<^verbatim>\<open>try\<close> block ends with
  the validation error when the job's concept converts to a string, and with the TypeError
  of the log line, which comes before the validation, when it does not. Either way the
  process exits with status 1 in the world of before the run: no Publisher call, no write,
  the file unchanged.
\<close>

theorem invalid_thread_rejected_before_publisher:
  assumes "fst (getJobParaHoy hoy w) = Inr jobHoy" and "truthy jobHoy"
    and "get_prop jobHoy ''concept'' = Inr c"
    and "get_prop jobHoy ''thread'' = Inr thread"
    and "\<not> isArray thread \<or> thread = JArr []"
  shows "publicarHilo_try hoy accepts w =
           (Inl (if converts c then ValidationError else TypeError), w) \<and>
         publicarHilo hoy accepts w = (1, w)"
proof (cases rule: publicarHilo_try_cases [where hoy = hoy and w = w and accepts = accepts])
  case (search_error e)
  with assms show ?thesis by simp
next
  case (no_job v)
  with assms show ?thesis by simp
next
  case (log_error j c')
  with assms show ?thesis by (simp add: publicarHilo_def)
next
  case (invalid j c' t)
  with assms show ?thesis by (simp add: publicarHilo_def)
next
  case (publish_error j c' t)
  with assms show ?thesis by auto
next
  case (cleanup j c' t)
  with assms show ?thesis by auto
qed

theorem invalid_thread_rejected_before_publisher_witness:
  "publicarHilo_try ''2024-01-02'' (\<lambda>t. True) (disk (agenda [job_empty_thread])) =
     (Inl ValidationError, disk (agenda [job_empty_thread])) \<and>
   publicarHilo ''2024-01-02'' (\<lambda>t. True) (disk (agenda [job_empty_thread])) =
     (1, disk (agenda [job_empty_thread]))"
proof -
  have found: "fst (getJobParaHoy ''2024-01-02'' (disk (agenda [job_empty_thread]))) =
               Inr job_empty_thread"
    by (simp add: script_defs)
  from invalid_thread_rejected_before_publisher
    [OF found, of "JStr ''B''" "JArr []" "\<lambda>t. True"]
  show ?thesis by simp
qed

text \<open>
  Today's job with an empty thread and a concept that is a mapping with a key
  \<^verbatim>\<open>toString\<close>: the \<^verbatim>\<open>try\<close> block ends with a TypeError, not with the validation error.
\<close>

theorem invalid_thread_type_error_counterexample:
  "publicarHilo_try ''2024-01-02'' (\<lambda>t. True) (disk (agenda [job_odd_concept_empty_thread])) =
     (Inl TypeError, disk (agenda [job_odd_concept_empty_thread]))"
  by (simp add: script_defs)

text \<open>
  C5. When the run called the Publisher and the call failed, the process exits with status
  1, the agenda file is the one of before the run and nothing was written.
\<close>

theorem publish_failure_exits_nonzero_agenda_untouched:
  assumes "publicarHilo hoy accepts w = (status, w')"
    and "tweeted w' = tweeted w @ [thread]"
    and "\<not> accepts thread"
  shows "status = 1 \<and> agenda_file w' = agenda_file w \<and> written w' = written w"
proof (cases rule: publicarHilo_try_cases [where hoy = hoy and w = w and accepts = accepts])
  case (search_error e)
  with assms show ?thesis by (simp add: publicarHilo_def)
next
  case (no_job v)
  with assms show ?thesis by (simp add: publicarHilo_def)
next
  case (log_error jobHoy c)
  with assms show ?thesis by (simp add: publicarHilo_def)
next
  case (invalid jobHoy c thread)
  with assms show ?thesis by (simp add: publicarHilo_def)
next
  case (publish_error jobHoy c thread)
  with assms show ?thesis by (auto simp add: publicarHilo_def)
next
  case (cleanup jobHoy c t)
  have "tweeted (snd (publicarHilo_try hoy accepts w)) = tweeted w @ [t]"
    using cleanup(9) removeJobFromAgenda_tweeted by simp
  moreover have "snd (publicarHilo_try hoy accepts w) = w'"
    using assms(1) by (auto simp: publicarHilo_def split: prod.splits sum.splits)
  ultimately have "t = thread" using assms(2) by simp
  with cleanup(8) assms(3) show ?thesis by simp
qed

theorem publish_failure_exits_nonzero_agenda_untouched_witness:
  "fst (publicarHilo ''2024-01-02'' (\<lambda>t. False) (disk (agenda [job_A, job_B]))) = 1 \<and>
   agenda_file (snd (publicarHilo ''2024-01-02'' (\<lambda>t. False) (disk (agenda [job_A, job_B])))) =
     Some (Doc (agenda [job_A, job_B])) \<and>
   written (snd (publicarHilo ''2024-01-02'' (\<lambda>t. False) (disk (agenda [job_A, job_B])))) = []"
proof -
  have run: "publicarHilo ''2024-01-02'' (\<lambda>t. False) (disk (agenda [job_A, job_B])) =
             (1, (disk (agenda [job_A, job_B]))\<lparr>tweeted := [thread_B]\<rparr>)"
    by (simp add: script_defs)
  from publish_failure_exits_nonzero_agenda_untouched [OF run, of thread_B]
  show ?thesis by (simp add: run)
qed

text \<open>
  C1, as the code has it. The call of \<^verbatim>\<open>removeJobFromAgenda\<close> stands inside the \<^verbatim>\<open>try\<close> block,
  so an exception of the cleanup reaches the same \<^verbatim>\<open>catch\<close> as any other. When the publish
  step succeeds (today's job is found, the log line prints its concept, its thread is a
  non-empty array and the Publisher accepts it) and the cleanup then throws \<open>e\<close>, the \<^verbatim>\<open>try\<close>
  block ends with \<open>e\<close> and the process exits with status 1, not 0, with the thread
  published.
\<close>

theorem cleanup_error_exits_nonzero:
  assumes "fst (getJobParaHoy hoy w) = Inr jobHoy" and "truthy jobHoy"
    and "get_prop jobHoy ''concept'' = Inr c" and "converts c"
    and "get_prop jobHoy ''thread'' = Inr thread"
    and "isArray thread" and "thread \<noteq> JArr []" and "accepts thread"
    and "fst (removeJobFromAgenda jobHoy (w\<lparr>tweeted := tweeted w @ [thread]\<rparr>)) = Inl e"
  shows "fst (publicarHilo_try hoy accepts w) = Inl e \<and>
         fst (publicarHilo hoy accepts w) = 1 \<and>
         tweeted (snd (publicarHilo hoy accepts w)) = tweeted w @ [thread]"
proof (cases rule: publicarHilo_try_cases [where hoy = hoy and w = w and accepts = accepts])
  case (search_error e')
  with assms show ?thesis by simp
next
  case (no_job v)
  with assms show ?thesis by simp
next
  case (log_error j c')
  with assms show ?thesis by simp
next
  case (invalid j c' t)
  with assms show ?thesis by auto
next
  case (publish_error j c' t)
  with assms show ?thesis by simp
next
  case (cleanup j c' t)
  with assms(1,5) have jt: "j = jobHoy" "t = thread" by simp_all
  have body: "publicarHilo_try hoy accepts w =
             removeJobFromAgenda jobHoy (w\<lparr>tweeted := tweeted w @ [thread]\<rparr>)"
    using cleanup(9) jt by simp
  have "tweeted (snd (publicarHilo_try hoy accepts w)) = tweeted w @ [thread]"
    using body removeJobFromAgenda_tweeted by simp
  moreover have "snd (publicarHilo hoy accepts w) = snd (publicarHilo_try hoy accepts w)"
    by (simp add: publicarHilo_def split: prod.splits sum.splits)
  ultimately show ?thesis
    using body assms(9) by (simp add: publicarHilo_def split: prod.splits sum.splits)
qed

text \<open>
  A witness where the filter callback throws: the entry after today's job is \<^verbatim>\<open>null\<close> (an
  empty list item), which \<^verbatim>\<open>find\<close> never reaches and \<^verbatim>\<open>filter\<close> does.
\<close>

theorem cleanup_error_exits_nonzero_witness:
  "fst (publicarHilo_try ''2024-01-02'' (\<lambda>t. True) (disk (agenda [job_B, JNull]))) = Inl TypeError \<and>
   fst (publicarHilo ''2024-01-02'' (\<lambda>t. True) (disk (agenda [job_B, JNull]))) = 1 \<and>
   tweeted (snd (publicarHilo ''2024-01-02'' (\<lambda>t. True) (disk (agenda [job_B, JNull])))) =
     [thread_B]"
proof -
  let ?w = "disk (agenda [job_B, JNull])"
  have found: "fst (getJobParaHoy ''2024-01-02'' ?w) = Inr job_B"
    by (simp add: script_defs)
  have raised: "fst (removeJobFromAgenda job_B (?w\<lparr>tweeted := tweeted ?w @ [thread_B]\<rparr>)) =
                Inl TypeError"
    by (simp add: script_defs)
  from cleanup_error_exits_nonzero
    [OF found _ _ _ _ _ _ _ raised, of "JStr ''B''" "\<lambda>t. True"]
  show ?thesis by simp
qed

text \<open>
  The run on an agenda holding the job of today, with a file system that refuses the
  write: the thread is published, the write-back of the cleanup throws, and the exit status
  is 1.
\<close>

theorem cleanup_error_exit_status_counterexample:
  "publicarHilo ''2024-01-02'' (\<lambda>t. True) (read_only (agenda [job_B])) =
     (1, (read_only (agenda [job_B]))\<lparr>tweeted := [thread_B]\<rparr>) \<and>
   removeJobFromAgenda job_B ((read_only (agenda [job_B]))\<lparr>tweeted := [thread_B]\<rparr>) =
     (Inl IOError, (read_only (agenda [job_B]))\<lparr>tweeted := [thread_B]\<rparr>)"
  by (simp add: script_defs)

text \<open>
  C2, as the code has it. Take a run that finds a job for today whose concept \<open>c\<close> is
  strictly equal to itself (a primitive other than NaN: a string, a number, a boolean,
  \<^verbatim>\<open>null\<close> or no concept), and that exits with status 0. It writes the agenda file exactly
  once; what it writes is the stored jobs sequence without every entry that has both today's
  date and the concept \<open>c\<close>, all of them when several share the pair; and that write removes
  at least one entry.
\<close>

theorem completed_run_writes_once_without_every_match:
  assumes "fst (getJobParaHoy hoy w) = Inr jobHoy" and "truthy jobHoy"
    and "get_prop jobHoy ''concept'' = Inr c" and "strict_eq c c"
    and "fst (publicarHilo hoy accepts w) = 0"
  shows "\<exists>data xs. agenda_file w = Some (Doc data) \<and> get_prop data ''jobs'' = Inr (JArr xs) \<and>
           written (snd (publicarHilo hoy accepts w)) =
             written w @
             [Doc (JObj [(''jobs'', JArr (filter (\<lambda>job. \<not> (get_prop job ''date'' = Inr (JStr hoy) \<and>
                                                          get_prop job ''concept'' = Inr c)) xs))])] \<and>
           length (filter (\<lambda>job. \<not> (get_prop job ''date'' = Inr (JStr hoy) \<and>
                                    get_prop job ''concept'' = Inr c)) xs) < length xs"
proof -
  from run_completed [OF assms(1,2,5)] obtain data xs where
    d: "agenda_file w = Some (Doc data)" "get_prop data ''jobs'' = Inr (JArr xs)"
    by blast
  from run_completed_pair [OF assms d]
  have wr: "written (snd (publicarHilo hoy accepts w)) =
            written w @
            [Doc (agenda (filter (\<lambda>job. \<not> (get_prop job ''date'' = Inr (JStr hoy) \<and>
                                           get_prop job ''concept'' = Inr c)) xs))]"
    by auto
  have "jobHoy \<in> set xs"
    using assms(1,2) d by (rule getJobParaHoy_member)
  moreover have "get_prop jobHoy ''date'' = Inr (JStr hoy)"
    using assms(1,2) by (rule getJobParaHoy_found)
  ultimately have "length (filter (\<lambda>job. \<not> (get_prop job ''date'' = Inr (JStr hoy) \<and>
                                             get_prop job ''concept'' = Inr c)) xs) < length xs"
    using assms(3) by (intro length_filter_less [of jobHoy]) simp_all
  with d wr show ?thesis by blast
qed

theorem completed_run_writes_once_without_every_match_witness:
  "written (snd (publicarHilo ''2024-01-02'' (\<lambda>t. True)
                  (disk (agenda [job_A, job_B, job_C, job_B_again])))) =
     [Doc (agenda [job_A, job_C])]"
proof -
  let ?w = "disk (agenda [job_A, job_B, job_C, job_B_again])"
  have found: "fst (getJobParaHoy ''2024-01-02'' ?w) = Inr job_B"
    by (simp add: script_defs)
  have c: "get_prop job_B ''concept'' = Inr (JStr ''B'')"
    by simp
  have prim: "strict_eq (JStr ''B'') (JStr ''B'')"
    by simp
  have exit0: "fst (publicarHilo ''2024-01-02'' (\<lambda>t. True) ?w) = 0"
    by (simp add: script_defs)
  from completed_run_writes_once_without_every_match [OF found _ c prim exit0]
  show ?thesis by auto
qed

text \<open>
  Two stored jobs share the date and concept of the published one: the run publishes the
  thread of the first and removes both, the second without having published it. And a job
  whose concept is a list: the run publishes it and writes the file with the job still in
  it, since two loads of a list are never strictly equal.
\<close>

theorem duplicate_pair_jobs_all_removed_counterexample:
  "publicarHilo ''2024-01-02'' (\<lambda>t. True) (disk (agenda [job_B, job_A, job_B_again])) =
     (0, \<lparr>agenda_file = Some (Doc (agenda [job_A])), on_write = Stored, tweeted = [thread_B],
          written = [Doc (agenda [job_A])]\<rparr>) \<and>
   publicarHilo ''2024-01-02'' (\<lambda>t. True) (disk (agenda [job_list_concept])) =
     (0, \<lparr>agenda_file = Some (Doc (agenda [job_list_concept])), on_write = Stored,
          tweeted = [JArr [JStr ''u'']], written = [Doc (agenda [job_list_concept])]\<rparr>)"
  by (simp add: script_defs)

text \<open>
  C4, as the code has it. Take a job found for today whose concept \<open>c\<close> is strictly equal
  to itself (a primitive other than NaN), whose publication succeeds and whose cleanup
  completes, so that the run exits with status 0. The job's thread was published, and the
  file afterwards holds, under \<^verbatim>\<open>jobs\<close>, the stored sequence without the entries that have both
  today's date, which is the published job's, and the concept \<open>c\<close>: no entry with the
  published job's pair is left, and the other entries stand in their original order.
\<close>

theorem published_pair_gone_after_cleanup:
  assumes "fst (getJobParaHoy hoy w) = Inr jobHoy" and "truthy jobHoy"
    and "get_prop jobHoy ''concept'' = Inr c" and "strict_eq c c"
    and "fst (publicarHilo hoy accepts w) = 0"
    and "agenda_file w = Some (Doc data)" and "get_prop data ''jobs'' = Inr (JArr xs)"
  shows "\<exists>thread.
           get_prop jobHoy ''thread'' = Inr thread \<and> accepts thread \<and>
           tweeted (snd (publicarHilo hoy accepts w)) = tweeted w @ [thread] \<and>
           get_prop jobHoy ''date'' = Inr (JStr hoy) \<and>
           agenda_file (snd (publicarHilo hoy accepts w)) =
             Some (Doc (JObj [(''jobs'',
               JArr (filter (\<lambda>job. \<not> (get_prop job ''date'' = Inr (JStr hoy) \<and>
                                      get_prop job ''concept'' = Inr c)) xs))]))"
proof -
  have "get_prop jobHoy ''date'' = Inr (JStr hoy)"
    using assms(1,2) by (rule getJobParaHoy_found)
  with run_completed_pair [OF assms] show ?thesis by auto
qed

theorem published_pair_gone_after_cleanup_witness:
  "tweeted (snd (publicarHilo ''2024-01-02'' (\<lambda>t. True) (disk (agenda [job_A, job_B, job_C])))) =
     [thread_B] \<and>
   agenda_file (snd (publicarHilo ''2024-01-02'' (\<lambda>t. True) (disk (agenda [job_A, job_B, job_C])))) =
     Some (Doc (agenda [job_A, job_C]))"
proof -
  let ?w = "disk (agenda [job_A, job_B, job_C])"
  have found: "fst (getJobParaHoy ''2024-01-02'' ?w) = Inr job_B"
    by (simp add: script_defs)
  have c: "get_prop job_B ''concept'' = Inr (JStr ''B'')"
    by simp
  have prim: "strict_eq (JStr ''B'') (JStr ''B'')"
    by simp
  have exit0: "fst (publicarHilo ''2024-01-02'' (\<lambda>t. True) ?w) = 0"
    by (simp add: script_defs)
  have f: "agenda_file ?w = Some (Doc (agenda [job_A, job_B, job_C]))"
    by simp
  have j: "get_prop (agenda [job_A, job_B, job_C]) ''jobs'' = Inr (JArr [job_A, job_B, job_C])"
    by simp
  from published_pair_gone_after_cleanup [OF found _ c prim exit0 f j]
  show ?thesis by auto
qed

text \<open>
  The scenario's agenda with a file system that refuses the write: the thread of the job
  of 2024-01-02 is published, and the agenda after the run still holds that job. And a job
  whose concept is a list: it is published, the cleanup completes, and the agenda after the
  run still holds it.
\<close>

theorem published_job_stays_counterexample:
  "publicarHilo ''2024-01-02'' (\<lambda>t. True) (read_only (agenda [job_A, job_B])) =
     (1, \<lparr>agenda_file = Some (Doc (agenda [job_A, job_B])), on_write = Refused,
          tweeted = [thread_B], written = []\<rparr>) \<and>
   publicarHilo ''2024-01-02'' (\<lambda>t. True) (disk (agenda [job_A, job_list_concept])) =
     (0, \<lparr>agenda_file = Some (Doc (agenda [job_A, job_list_concept])), on_write = Stored,
          tweeted = [JArr [JStr ''u'']], written = [Doc (agenda [job_A, job_list_concept])]\<rparr>)"
  by (simp add: script_defs)

end
